theory Spec2Isabelle
  imports Main
begin

section \<open>Python values and exceptions\<close>

text \<open>
  The client of \<^verbatim>\<open>pvforecast/api.py\<close> is dynamically typed: what \<^verbatim>\<open>json.loads\<close>
  returns is stored in the forecast records as it is. A Python object that JSON decoding
  can produce is a value of \<open>pyobj\<close>. A text is a \<open>string\<close>, one \<open>char\<close> per character
  (code points up to 255). A float is never computed with: it is carried by its
  \<^verbatim>\<open>repr\<close> text, which is what \<^verbatim>\<open>str\<close> gives for it.
\<close>

datatype pyfloat = FloatRepr string

datatype pyobj =
    PyNone
  | PyBool bool
  | PyInt int
  | PyFloat pyfloat
  | PyStr string
  | PyList "pyobj list"
  | PyDict "(string \<times> pyobj) list"

text \<open>
  The exceptions that can leave the two public methods. \<open>ValueError\<close> and \<open>Exception\<close>
  carry the message the source gives them; the others are raised by the interpreter or by
  the standard library.
\<close>

datatype py_exception =
    ValueError string
  | Exception string
  | JSONDecodeError
  | UnicodeDecodeError
  | TypeError
  | IndexError
  | KeyError



text \<open>
  \<^verbatim>\<open>for entry in raw_data\<close>: a list gives its elements, a dict its keys, a str its
  characters as one-character strings; anything else is not iterable.
\<close>

fun py_iter :: "pyobj \<Rightarrow> py_exception + pyobj list" where
  "py_iter (PyList xs) = Inr xs"
| "py_iter (PyDict kvs) = Inr (map (\<lambda>kv. PyStr (fst kv)) kvs)"
| "py_iter (PyStr s) = Inr (map (\<lambda>c. PyStr [c]) s)"
| "py_iter PyNone = Inl TypeError"
| "py_iter (PyBool b) = Inl TypeError"
| "py_iter (PyInt n) = Inl TypeError"
| "py_iter (PyFloat f) = Inl TypeError"

text \<open>
  \<^verbatim>\<open>entry[i]\<close> for the literal indices 0 and 1 of the source. The keys of a decoded
  JSON object are strings, so an integer index is never among them.
\<close>

fun py_getitem :: "pyobj \<Rightarrow> nat \<Rightarrow> py_exception + pyobj" where
  "py_getitem (PyList xs) i = (if i < length xs then Inr (xs ! i) else Inl IndexError)"
| "py_getitem (PyStr s) i = (if i < length s then Inr (PyStr [s ! i]) else Inl IndexError)"
| "py_getitem (PyDict kvs) i = Inl KeyError"
| "py_getitem PyNone i = Inl TypeError"
| "py_getitem (PyBool b) i = Inl TypeError"
| "py_getitem (PyInt n) i = Inl TypeError"
| "py_getitem (PyFloat f) i = Inl TypeError"

text \<open>A list comprehension whose element expression may raise: the first exception ends it.\<close>

fun list_comp :: "('a \<Rightarrow> py_exception + 'b) \<Rightarrow> 'a list \<Rightarrow> py_exception + 'b list" where
  "list_comp f [] = Inr []"
| "list_comp f (x # xs) =
     (case f x of
        Inl e \<Rightarrow> Inl e
      | Inr y \<Rightarrow> (case list_comp f xs of Inl e \<Rightarrow> Inl e | Inr ys \<Rightarrow> Inr (y # ys)))"

section \<open>The data classes\<close>

record HourlyForecast =
  timestamp :: pyobj
  irradiance :: pyobj

record DailyForecast =
  timestamp :: pyobj
  total_irradiance :: pyobj

record HourlyForecastData =
  forecasts :: "HourlyForecast list"

text \<open>
  \<^verbatim>\<open>_parse_json\<close> returns an \<open>HourlyForecastData\<close> for \<^verbatim>\<open>"hour"\<close> and a bare list of
  \<open>DailyForecast\<close> for \<^verbatim>\<open>"day"\<close>.
\<close>

datatype parsed =
    Hourly HourlyForecastData
  | Daily "DailyForecast list"

section \<open>The standard library the client calls\<close>

text \<open>\<^verbatim>\<open>str(n)\<close> for an int: decimal digits, with a minus sign below zero.\<close>

fun str_nat :: "nat \<Rightarrow> string" where
  "str_nat n =
     (if n < 10 then [''0123456789'' ! n]
      else str_nat (n div 10) @ [''0123456789'' ! (n mod 10)])"

definition str_int :: "int \<Rightarrow> string" where
  "str_int i = (if i < 0 then CHR ''-'' # str_nat (nat (- i)) else str_nat (nat i))"

text \<open>The values of the \<^verbatim>\<open>params\<close> dict, and \<^verbatim>\<open>str\<close> on them.\<close>

datatype query_value = QStr string | QInt int | QFloat pyfloat

fun str_value :: "query_value \<Rightarrow> string" where
  "str_value (QStr s) = s"
| "str_value (QInt n) = str_int n"
| "str_value (QFloat (FloatRepr r)) = r"

text \<open>
  \<^verbatim>\<open>urllib.parse.quote_plus\<close>: a character is encoded in UTF-8; the bytes of
  \<^verbatim>\<open>A-Z a-z 0-9 _ . - ~\<close> stay, a space becomes \<^verbatim>\<open>+\<close>, every other byte becomes
  \<^verbatim>\<open>%XX\<close> in upper-case hexadecimal.
\<close>

definition always_safe :: "char \<Rightarrow> bool" where
  "always_safe c \<longleftrightarrow>
     c \<in> set ''ABCDEFGHIJKLMNOPQRSTUVWXYZabcdefghijklmnopqrstuvwxyz0123456789_.-~''"

definition utf8_encode :: "char \<Rightarrow> nat list" where
  "utf8_encode c =
     (let n = (of_char c :: nat)
      in if n < 128 then [n] else [192 + n div 64, 128 + n mod 64])"

definition hex_byte :: "nat \<Rightarrow> string" where
  "hex_byte b = [CHR ''%'', ''0123456789ABCDEF'' ! (b div 16), ''0123456789ABCDEF'' ! (b mod 16)]"

definition quote_char :: "char \<Rightarrow> string" where
  "quote_char c =
     (if c = CHR '' '' then ''+''
      else if always_safe c then [c]
      else concat (map hex_byte (utf8_encode c)))"

definition quote_plus :: "string \<Rightarrow> string" where
  "quote_plus s = concat (map quote_char s)"

text \<open>
  \<^verbatim>\<open>urllib.parse.urlencode\<close> on a dict, which keeps its insertion order:
  \<^verbatim>\<open>k=v\<close> fields joined by \<^verbatim>\<open>&\<close>, both sides through \<^verbatim>\<open>quote_plus(str(.))\<close>.
\<close>

definition query_field :: "string \<times> query_value \<Rightarrow> string" where
  "query_field kv = quote_plus (fst kv) @ ''='' @ quote_plus (str_value (snd kv))"

fun join_amp :: "string list \<Rightarrow> string" where
  "join_amp [] = []"
| "join_amp [x] = x"
| "join_amp (x # y # ys) = x @ ''&'' @ join_amp (y # ys)"

definition urlencode :: "(string \<times> query_value) list \<Rightarrow> string" where
  "urlencode params = join_amp (map query_field params)"

text \<open>
  The network and the JSON decoder are outside the client. \<^verbatim>\<open>urlopen(url)\<close> either
  returns a response (its \<^verbatim>\<open>status\<close> and what \<^verbatim>\<open>read().decode()\<close> gives, \<open>None\<close>
  when the bytes are not UTF-8), or raises \<^verbatim>\<open>HTTPError\<close> (its \<^verbatim>\<open>reason\<close> and the
  decoded body), or raises \<^verbatim>\<open>URLError\<close> (its \<^verbatim>\<open>reason\<close> as text).
  \<^verbatim>\<open>json.loads\<close> gives the decoded object, \<open>None\<close> when it raises
  \<^verbatim>\<open>JSONDecodeError\<close>.
\<close>

record request =
  req_url :: string
  req_data :: "string option"

datatype urlopen_outcome =
    Response int "string option"
  | HTTPError string "string option"
  | URLError string

record world =
  urlopen :: "request \<Rightarrow> urlopen_outcome"
  json_loads :: "string \<Rightarrow> pyobj option"

section \<open>The client\<close>

record PVForecast =
  api_key :: string

definition BASE_URL :: string where
  "BASE_URL = ''http://www.pvforecast.cz/api/''"

definition hourly_entry :: "pyobj \<Rightarrow> py_exception + HourlyForecast" where
  "hourly_entry entry =
     (case py_getitem entry 0 of
        Inl e \<Rightarrow> Inl e
      | Inr t \<Rightarrow>
          (case py_getitem entry 1 of
             Inl e \<Rightarrow> Inl e
           | Inr v \<Rightarrow> Inr \<lparr>HourlyForecast.timestamp = t, irradiance = v\<rparr>))"

definition daily_entry :: "pyobj \<Rightarrow> py_exception + DailyForecast" where
  "daily_entry entry =
     (case py_getitem entry 0 of
        Inl e \<Rightarrow> Inl e
      | Inr t \<Rightarrow>
          (case py_getitem entry 1 of
             Inl e \<Rightarrow> Inl e
           | Inr v \<Rightarrow> Inr \<lparr>DailyForecast.timestamp = t, total_irradiance = v\<rparr>))"

definition parse_json :: "world \<Rightarrow> string \<Rightarrow> string \<Rightarrow> py_exception + parsed" where
  "parse_json w data forecast_type =
     (case json_loads w data of
        None \<Rightarrow> Inl JSONDecodeError
      | Some raw_data \<Rightarrow>
          if forecast_type = ''hour'' then
            (case py_iter raw_data of
               Inl e \<Rightarrow> Inl e
             | Inr entries \<Rightarrow>
                 (case list_comp hourly_entry entries of
                    Inl e \<Rightarrow> Inl e
                  | Inr fs \<Rightarrow> Inr (Hourly \<lparr>forecasts = fs\<rparr>)))
          else if forecast_type = ''day'' then
            (case py_iter raw_data of
               Inl e \<Rightarrow> Inl e
             | Inr entries \<Rightarrow>
                 (case list_comp daily_entry entries of
                    Inl e \<Rightarrow> Inl e
                  | Inr fs \<Rightarrow> Inr (Daily fs)))
          else Inl (ValueError (''Invalid time_type. Should be '' @ [CHR 0x27] @ ''hour''
                  @ [CHR 0x27] @ '' or '' @ [CHR 0x27] @ ''day'' @ [CHR 0x27] @ ''.'')))"

text \<open>The \<^verbatim>\<open>try\<close> block shared by both methods, after the URL is built.\<close>

definition fetch :: "world \<Rightarrow> request \<Rightarrow> string \<Rightarrow> py_exception + parsed" where
  "fetch w req forecast_type =
     (case urlopen w req of
        Response status body \<Rightarrow>
          if status = 200 then
            (case body of
               None \<Rightarrow> Inl UnicodeDecodeError
             | Some text \<Rightarrow> parse_json w text forecast_type)
          else Inl (Exception (''Failed to fetch data: HTTP '' @ str_int status))
      | HTTPError reason body \<Rightarrow>
          (case body of
             None \<Rightarrow> Inl UnicodeDecodeError
           | Some msg \<Rightarrow> Inl (Exception (''Failed get data: '' @ reason @ '' - '' @ msg)))
      | URLError reason \<Rightarrow> Inl (Exception (''Failed to reach server: '' @ reason)))"

definition invalid_start_msg :: string where
  "invalid_start_msg = ''Invalid start. Should be '' @ [CHR 0x27] @ ''today'' @ [CHR 0x27]
     @ '', '' @ [CHR 0x27] @ ''tomorrow'' @ [CHR 0x27] @ '', or '' @ [CHR 0x27] @ ''auto''
     @ [CHR 0x27] @ ''.''"

definition hourly_params ::
  "PVForecast \<Rightarrow> pyfloat \<Rightarrow> pyfloat \<Rightarrow> int \<Rightarrow> int \<Rightarrow> string \<Rightarrow> (string \<times> query_value) list" where
  "hourly_params self lat lon length' dst start =
     [(''key'', QStr (api_key self)),
      (''lat'', QFloat lat),
      (''lon'', QFloat lon),
      (''forecast'', QStr ''pv''),
      (''format'', QStr ''json''),
      (''type'', QStr ''hour''),
      (''number'', QInt length'),
      (''dst'', QInt dst),
      (''start'', QStr start)]"

definition daily_params ::
  "PVForecast \<Rightarrow> pyfloat \<Rightarrow> pyfloat \<Rightarrow> int \<Rightarrow> int \<Rightarrow> string \<Rightarrow> (string \<times> query_value) list" where
  "daily_params self lat lon length' dst start =
     [(''key'', QStr (api_key self)),
      (''lat'', QFloat lat),
      (''lon'', QFloat lon),
      (''forecast'', QStr ''pv''),
      (''format'', QStr ''json''),
      (''type'', QStr ''day''),
      (''number'', QInt length'),
      (''dst'', QInt dst),
      (''start'', QStr start)]"

text \<open>
  Both methods return the outcome of the call together with the requests that were
  handed to \<^verbatim>\<open>urlopen\<close>, in order. \<^verbatim>\<open>urlopen(url)\<close> passes no \<^verbatim>\<open>data\<close>, so the
  request is a GET without a body.
\<close>

definition get_hourly_irradiance ::
  "world \<Rightarrow> PVForecast \<Rightarrow> pyfloat \<Rightarrow> pyfloat \<Rightarrow> int \<Rightarrow> int \<Rightarrow> string
     \<Rightarrow> (py_exception + parsed) \<times> request list" where
  "get_hourly_irradiance w self lat lon length' dst start =
     (if length' \<notin> set [24, 48, 72] then
        (Inl (ValueError ''Invalid length. Should be 24, 48 or 72.''), [])
      else if dst \<notin> set [0, 1] then
        (Inl (ValueError ''Invalid dst. Should be 0 or 1.''), [])
      else if start \<notin> set [''today'', ''tomorrow'', ''auto''] then
        (Inl (ValueError invalid_start_msg), [])
      else
        let params = hourly_params self lat lon length' dst start;
            url = BASE_URL @ ''?'' @ urlencode params;
            req = \<lparr>req_url = url, req_data = None\<rparr>
        in (fetch w req ''hour'', [req]))"

definition get_daily_irradiance ::
  "world \<Rightarrow> PVForecast \<Rightarrow> pyfloat \<Rightarrow> pyfloat \<Rightarrow> int \<Rightarrow> int \<Rightarrow> string
     \<Rightarrow> (py_exception + parsed) \<times> request list" where
  "get_daily_irradiance w self lat lon length' dst start =
     (if length' \<notin> set [1, 2, 3] then
        (Inl (ValueError ''Invalid length. Should be 1, 2 or 3.''), [])
      else if dst \<notin> set [0, 1] then
        (Inl (ValueError ''Invalid dst. Should be 0 or 1.''), [])
      else if start \<notin> set [''today'', ''tomorrow'', ''auto''] then
        (Inl (ValueError invalid_start_msg), [])
      else
        let params = daily_params self lat lon length' dst start;
            url = BASE_URL @ ''?'' @ urlencode params;
            req = \<lparr>req_url = url, req_data = None\<rparr>
        in (fetch w req ''day'', [req]))"

text \<open>The request each method hands to \<^verbatim>\<open>urlopen\<close> once its parameters are accepted.\<close>

definition hourly_request ::
  "PVForecast \<Rightarrow> pyfloat \<Rightarrow> pyfloat \<Rightarrow> int \<Rightarrow> int \<Rightarrow> string \<Rightarrow> request" where
  "hourly_request self lat lon length' dst start =
     \<lparr>req_url = BASE_URL @ ''?'' @ urlencode (hourly_params self lat lon length' dst start),
      req_data = None\<rparr>"

definition daily_request ::
  "PVForecast \<Rightarrow> pyfloat \<Rightarrow> pyfloat \<Rightarrow> int \<Rightarrow> int \<Rightarrow> string \<Rightarrow> request" where
  "daily_request self lat lon length' dst start =
     \<lparr>req_url = BASE_URL @ ''?'' @ urlencode (daily_params self lat lon length' dst start),
      req_data = None\<rparr>"

section \<open>Vocabulary of the properties\<close>

text \<open>The parameter combinations that pass the three checks of each method.\<close>

definition valid_hourly :: "int \<Rightarrow> int \<Rightarrow> string \<Rightarrow> bool" where
  "valid_hourly length' dst start \<longleftrightarrow>
     length' \<in> {24, 48, 72} \<and> dst \<in> {0, 1} \<and> start \<in> {''today'', ''tomorrow'', ''auto''}"

definition valid_daily :: "int \<Rightarrow> int \<Rightarrow> string \<Rightarrow> bool" where
  "valid_daily length' dst start \<longleftrightarrow>
     length' \<in> {1, 2, 3} \<and> dst \<in> {0, 1} \<and> start \<in> {''today'', ''tomorrow'', ''auto''}"

text \<open>A decoded JSON array of two elements.\<close>

definition json_pair :: "pyobj \<times> pyobj \<Rightarrow> pyobj" where
  "json_pair p = PyList [fst p, snd p]"

text \<open>
  Reading a query string back: fields are separated by \<^verbatim>\<open>&\<close>, a name from its value
  by \<^verbatim>\<open>=\<close>. \<open>split_on\<close> is Python's \<^verbatim>\<open>str.split(sep)\<close> for a one-character
  separator.
\<close>

fun split_on :: "char \<Rightarrow> string \<Rightarrow> string list" where
  "split_on c [] = [[]]"
| "split_on c (x # xs) =
     (if x = c then [] # split_on c xs
      else (case split_on c xs of [] \<Rightarrow> [[x]] | p # ps \<Rightarrow> (x # p) # ps))"

definition parse_query :: "string \<Rightarrow> string list list" where
  "parse_query q = map (split_on CHR ''='') (split_on CHR ''&'' q)"

text \<open>The characters \<open>quote_plus\<close> can produce.\<close>

definition quoted_alphabet :: string where
  "quoted_alphabet =
     ''ABCDEFGHIJKLMNOPQRSTUVWXYZabcdefghijklmnopqrstuvwxyz0123456789_.-~+%''"

section \<open>Example inputs\<close>

text \<open>
  The fixtures of \<^verbatim>\<open>tests/test_api.py\<close>: a client with the key \<^verbatim>\<open>test_key\<close>, and
  a network that answers every request with one fixed outcome.
\<close>

definition test_client :: PVForecast where
  "test_client = \<lparr>api_key = ''test_key''\<rparr>"

definition mock_world :: "urlopen_outcome \<Rightarrow> pyobj option \<Rightarrow> world" where
  "mock_world outcome decoded = \<lparr>urlopen = (\<lambda>req. outcome), json_loads = (\<lambda>body. decoded)\<rparr>"

definition sample_text :: string where
  \<open>sample_text = ''[["2023-10-01T00:00:00Z", 1000]]''\<close>

definition sample_raw :: pyobj where
  "sample_raw = PyList [PyList [PyStr ''2023-10-01T00:00:00Z'', PyInt 1000]]"

definition null_text :: string where
  \<open>null_text = ''[["2023-10-02T00:00:00Z", null]]''\<close>

definition null_raw :: pyobj where
  "null_raw = PyList [PyList [PyStr ''2023-10-02T00:00:00Z'', PyNone]]"

text \<open>The decoder on the two bodies above; any other body is taken as malformed.\<close>

definition sample_loads :: "string \<Rightarrow> pyobj option" where
  "sample_loads body =
     (if body = sample_text then Some sample_raw
      else if body = null_text then Some null_raw
      else None)"

definition sample_world :: "urlopen_outcome \<Rightarrow> world" where
  "sample_world outcome = \<lparr>urlopen = (\<lambda>req. outcome), json_loads = sample_loads\<rparr>"

definition two_days :: "(pyobj \<times> pyobj) list" where
  "two_days =
     [(PyStr ''2023-10-01T00:00:00Z'', PyInt 1000), (PyStr ''2023-10-02T00:00:00Z'', PyNone)]"

section \<open>Facts about the helpers\<close>

lemma hourly_valid_eq:
  "valid_hourly length' dst start \<Longrightarrow>
   get_hourly_irradiance w self lat lon length' dst start =
     (fetch w (hourly_request self lat lon length' dst start) ''hour'',
      [hourly_request self lat lon length' dst start])"
  by (simp add: valid_hourly_def get_hourly_irradiance_def hourly_request_def Let_def)

lemma daily_valid_eq:
  "valid_daily length' dst start \<Longrightarrow>
   get_daily_irradiance w self lat lon length' dst start =
     (fetch w (daily_request self lat lon length' dst start) ''day'',
      [daily_request self lat lon length' dst start])"
  by (simp add: valid_daily_def get_daily_irradiance_def daily_request_def Let_def)



lemma fetch_200:
  "urlopen w req = Response 200 (Some body) \<Longrightarrow> fetch w req ft = parse_json w body ft"
  by (simp add: fetch_def)

lemma fetch_response:
  "urlopen w req = Response status body \<Longrightarrow>
   fetch w req ft =
     (if status = 200 then
        (case body of None \<Rightarrow> Inl UnicodeDecodeError | Some t \<Rightarrow> parse_json w t ft)
      else Inl (Exception (''Failed to fetch data: HTTP '' @ str_int status)))"
  by (simp add: fetch_def)



subsection \<open>Parsing an array of pairs\<close>

lemma hourly_entry_pair:
  "hourly_entry (PyList [t, v]) = Inr \<lparr>HourlyForecast.timestamp = t, irradiance = v\<rparr>"
  by (simp add: hourly_entry_def)

lemma daily_entry_pair:
  "daily_entry (PyList [t, v]) = Inr \<lparr>DailyForecast.timestamp = t, total_irradiance = v\<rparr>"
  by (simp add: daily_entry_def)

lemma list_comp_hourly_pairs:
  "list_comp hourly_entry (map json_pair ps) =
     Inr (map (\<lambda>p. \<lparr>HourlyForecast.timestamp = fst p, irradiance = snd p\<rparr>) ps)"
  by (induction ps) (simp_all add: json_pair_def hourly_entry_pair)

lemma list_comp_daily_pairs:
  "list_comp daily_entry (map json_pair ps) =
     Inr (map (\<lambda>p. \<lparr>DailyForecast.timestamp = fst p, total_irradiance = snd p\<rparr>) ps)"
  by (induction ps) (simp_all add: json_pair_def daily_entry_pair)

lemma parse_json_hour_pairs:
  "json_loads w body = Some (PyList (map json_pair ps)) \<Longrightarrow>
   parse_json w body ''hour'' =
     Inr (Hourly \<lparr>forecasts =
       map (\<lambda>p. \<lparr>HourlyForecast.timestamp = fst p, irradiance = snd p\<rparr>) ps\<rparr>)"
  by (simp add: parse_json_def list_comp_hourly_pairs)

lemma parse_json_day_pairs:
  "json_loads w body = Some (PyList (map json_pair ps)) \<Longrightarrow>
   parse_json w body ''day'' =
     Inr (Daily (map (\<lambda>p. \<lparr>DailyForecast.timestamp = fst p, total_irradiance = snd p\<rparr>) ps))"
  by (simp add: parse_json_def list_comp_daily_pairs)

subsection \<open>What parsing can raise\<close>









subsection \<open>Reading an encoded query back\<close>

lemma split_on_absent: "c \<notin> set a \<Longrightarrow> split_on c a = [a]"
  by (induction a) auto

lemma split_on_append: "c \<notin> set a \<Longrightarrow> split_on c (a @ c # b) = a # split_on c b"
  by (induction a) auto

lemma split_on_join_amp:
  "fs \<noteq> [] \<Longrightarrow> \<forall>f \<in> set fs. CHR ''&'' \<notin> set f \<Longrightarrow> split_on CHR ''&'' (join_amp fs) = fs"
proof (induction fs rule: join_amp.induct)
  case 1
  then show ?case by simp
next
  case (2 x)
  then show ?case by (simp add: split_on_absent)
next
  case (3 x y ys)
  then show ?case by (simp add: split_on_append)
qed

lemma hex_digit_quoted: "n < 16 \<Longrightarrow> ''0123456789ABCDEF'' ! n \<in> set quoted_alphabet"
proof -
  assume "n < 16"
  then have "''0123456789ABCDEF'' ! n \<in> set ''0123456789ABCDEF''"
    by (intro nth_mem) simp
  then show ?thesis
    by (auto simp: quoted_alphabet_def)
qed

lemma hex_byte_quoted: "b < 256 \<Longrightarrow> set (hex_byte b) \<subseteq> set quoted_alphabet"
proof -
  assume b: "b < 256"
  then have "b div 16 < 16" "b mod 16 < 16" by arith+
  then have "''0123456789ABCDEF'' ! (b div 16) \<in> set quoted_alphabet"
    "''0123456789ABCDEF'' ! (b mod 16) \<in> set quoted_alphabet"
    by (simp_all only: hex_digit_quoted)
  moreover have "CHR ''%'' \<in> set quoted_alphabet"
    by (simp add: quoted_alphabet_def)
  ultimately show ?thesis
    by (simp add: hex_byte_def)
qed

lemma utf8_encode_bytes: "b \<in> set (utf8_encode c) \<Longrightarrow> b < 256"
proof -
  assume b: "b \<in> set (utf8_encode c)"
  have small: "n div 64 < 4" if "n < 256" for n :: nat
    using that by arith
  have "(of_char c :: nat) div 64 < 4"
    by (rule small) simp
  with b show ?thesis
    by (auto simp: utf8_encode_def Let_def split: if_splits)
qed

lemma quote_char_quoted: "set (quote_char c) \<subseteq> set quoted_alphabet"
proof (cases "c = CHR '' ''")
  case True
  then show ?thesis by (simp add: quote_char_def quoted_alphabet_def)
next
  case False
  show ?thesis
  proof (cases "always_safe c")
    case True
    then have "c \<in> set quoted_alphabet"
      by (auto simp: always_safe_def quoted_alphabet_def)
    with True \<open>c \<noteq> CHR '' ''\<close> show ?thesis by (simp add: quote_char_def)
  next
    case False
    with \<open>c \<noteq> CHR '' ''\<close> show ?thesis
      using hex_byte_quoted utf8_encode_bytes by (fastforce simp: quote_char_def)
  qed
qed

lemma quote_plus_quoted: "set (quote_plus s) \<subseteq> set quoted_alphabet"
  using quote_char_quoted by (auto simp: quote_plus_def)

lemma quote_plus_no_amp: "CHR ''&'' \<notin> set (quote_plus s)"
proof
  assume "CHR ''&'' \<in> set (quote_plus s)"
  with quote_plus_quoted have "CHR ''&'' \<in> set quoted_alphabet" by blast
  then show False by (simp add: quoted_alphabet_def)
qed

lemma quote_plus_no_eq: "CHR ''='' \<notin> set (quote_plus s)"
proof
  assume "CHR ''='' \<in> set (quote_plus s)"
  with quote_plus_quoted have "CHR ''='' \<in> set quoted_alphabet" by blast
  then show False by (simp add: quoted_alphabet_def)
qed

lemma query_field_no_amp: "CHR ''&'' \<notin> set (query_field kv)"
  by (simp add: query_field_def quote_plus_no_amp)

lemma split_query_field:
  "split_on CHR ''='' (query_field kv) = [quote_plus (fst kv), quote_plus (str_value (snd kv))]"
proof -
  have "split_on CHR ''='' (quote_plus (fst kv) @ CHR ''='' # quote_plus (str_value (snd kv))) =
      quote_plus (fst kv) # split_on CHR ''='' (quote_plus (str_value (snd kv)))"
    by (rule split_on_append) (rule quote_plus_no_eq)
  also have "split_on CHR ''='' (quote_plus (str_value (snd kv))) =
      [quote_plus (str_value (snd kv))]"
    by (rule split_on_absent) (rule quote_plus_no_eq)
  finally show ?thesis by (simp add: query_field_def)
qed

lemma parse_query_urlencode:
  "params \<noteq> [] \<Longrightarrow>
   parse_query (urlencode params) =
     map (\<lambda>kv. [quote_plus (fst kv), quote_plus (str_value (snd kv))]) params"
  by (simp add: parse_query_def urlencode_def split_on_join_amp query_field_no_amp
      split_query_field)

lemma quote_plus_names:
  "quote_plus ''key'' = ''key''" "quote_plus ''lat'' = ''lat''" "quote_plus ''lon'' = ''lon''"
  "quote_plus ''forecast'' = ''forecast''" "quote_plus ''format'' = ''format''"
  "quote_plus ''type'' = ''type''" "quote_plus ''number'' = ''number''"
  "quote_plus ''dst'' = ''dst''" "quote_plus ''start'' = ''start''"
  "quote_plus ''pv'' = ''pv''" "quote_plus ''json'' = ''json''"
  "quote_plus ''hour'' = ''hour''" "quote_plus ''day'' = ''day''"
  "quote_plus ''today'' = ''today''" "quote_plus ''tomorrow'' = ''tomorrow''"
  "quote_plus ''auto'' = ''auto''"
  by (simp_all add: quote_plus_def quote_char_def always_safe_def)

lemma quote_plus_numbers:
  "quote_plus ''0'' = ''0''" "quote_plus ''1'' = ''1''"
  "quote_plus ''2'' = ''2''" "quote_plus ''3'' = ''3''"
  "quote_plus ''24'' = ''24''" "quote_plus ''48'' = ''48''"
  "quote_plus ''72'' = ''72''"
  by (simp_all add: quote_plus_def quote_char_def always_safe_def)

lemma str_numbers:
  "str_int 0 = ''0''" "str_int 1 = ''1''" "str_int 2 = ''2''" "str_int 3 = ''3''"
  "str_int 24 = ''24''" "str_int 48 = ''48''" "str_int 72 = ''72''"
  by (simp_all add: str_int_def)

lemma quote_plus_start:
  "start \<in> {''today'', ''tomorrow'', ''auto''} \<Longrightarrow> quote_plus start = start"
  by (elim insertE emptyE) (simp_all only: quote_plus_names)

lemma quote_plus_dst: "dst \<in> {0, 1} \<Longrightarrow> quote_plus (str_int dst) = str_int dst"
  by (elim insertE emptyE) (simp_all only: quote_plus_numbers str_numbers)

lemma quote_plus_hours: "h \<in> {24, 48, 72} \<Longrightarrow> quote_plus (str_int h) = str_int h"
  by (elim insertE emptyE) (simp_all only: quote_plus_numbers str_numbers)

lemma quote_plus_days: "d \<in> {1, 2, 3} \<Longrightarrow> quote_plus (str_int d) = str_int d"
  by (elim insertE emptyE) (simp_all only: quote_plus_numbers str_numbers)

lemma hourly_fields:
  "valid_hourly h dst start \<Longrightarrow>
   parse_query (urlencode (hourly_params self lat lon h dst start)) =
     [[''key'', quote_plus (api_key self)],
      [''lat'', quote_plus (str_value (QFloat lat))],
      [''lon'', quote_plus (str_value (QFloat lon))],
      [''forecast'', ''pv''], [''format'', ''json''], [''type'', ''hour''],
      [''number'', str_int h], [''dst'', str_int dst], [''start'', start]]"
proof -
  assume v: "valid_hourly h dst start"
  have "hourly_params self lat lon h dst start \<noteq> []"
    by (simp add: hourly_params_def)
  then have "parse_query (urlencode (hourly_params self lat lon h dst start)) =
      map (\<lambda>kv. [quote_plus (fst kv), quote_plus (str_value (snd kv))])
        (hourly_params self lat lon h dst start)"
    by (rule parse_query_urlencode)
  with v show ?thesis
    by (simp add: valid_hourly_def hourly_params_def quote_plus_names
        quote_plus_start quote_plus_dst quote_plus_hours del: str_nat.simps)
qed

lemma daily_fields:
  "valid_daily d dst start \<Longrightarrow>
   parse_query (urlencode (daily_params self lat lon d dst start)) =
     [[''key'', quote_plus (api_key self)],
      [''lat'', quote_plus (str_value (QFloat lat))],
      [''lon'', quote_plus (str_value (QFloat lon))],
      [''forecast'', ''pv''], [''format'', ''json''], [''type'', ''day''],
      [''number'', str_int d], [''dst'', str_int dst], [''start'', start]]"
proof -
  assume v: "valid_daily d dst start"
  have "daily_params self lat lon d dst start \<noteq> []"
    by (simp add: daily_params_def)
  then have "parse_query (urlencode (daily_params self lat lon d dst start)) =
      map (\<lambda>kv. [quote_plus (fst kv), quote_plus (str_value (snd kv))])
        (daily_params self lat lon d dst start)"
    by (rule parse_query_urlencode)
  with v show ?thesis
    by (simp add: valid_daily_def daily_params_def quote_plus_names
        quote_plus_start quote_plus_dst quote_plus_days del: str_nat.simps)
qed


section \<open>Successful calls\<close>

text \<open>
  C1. A call that is answered with status 200 and the body
  \<^verbatim>\<open>[["2023-10-01T00:00:00Z", 1000]]\<close> returns one entry: the hourly call an
  \<open>HourlyForecast\<close> with that timestamp and irradiance 1000, the daily call a
  \<open>DailyForecast\<close> with that timestamp and total irradiance 1000. A JSON pair is mapped
  by position: its first element is the timestamp, its second the irradiance value.
\<close>

theorem single_pair_roundtrip:
  "json_loads w body = Some sample_raw \<Longrightarrow>
   (valid_hourly h dst start \<and>
      urlopen w (hourly_request self lat lon h dst start) = Response 200 (Some body) \<longrightarrow>
      fst (get_hourly_irradiance w self lat lon h dst start) =
        Inr (Hourly \<lparr>forecasts =
          [\<lparr>HourlyForecast.timestamp = PyStr ''2023-10-01T00:00:00Z'',
            irradiance = PyInt 1000\<rparr>]\<rparr>))
   \<and> (valid_daily d dst start \<and>
      urlopen w (daily_request self lat lon d dst start) = Response 200 (Some body) \<longrightarrow>
      fst (get_daily_irradiance w self lat lon d dst start) =
        Inr (Daily
          [\<lparr>DailyForecast.timestamp = PyStr ''2023-10-01T00:00:00Z'',
            total_irradiance = PyInt 1000\<rparr>]))
   \<and> hourly_entry (PyList [t, v]) = Inr \<lparr>HourlyForecast.timestamp = t, irradiance = v\<rparr>
   \<and> daily_entry (PyList [t, v]) = Inr \<lparr>DailyForecast.timestamp = t, total_irradiance = v\<rparr>"
proof -
  assume loads: "json_loads w body = Some sample_raw"
  have raw: "sample_raw = PyList (map json_pair [(PyStr ''2023-10-01T00:00:00Z'', PyInt 1000)])"
    by (simp add: sample_raw_def json_pair_def)
  have hour: "parse_json w body ''hour'' =
      Inr (Hourly \<lparr>forecasts =
        [\<lparr>HourlyForecast.timestamp = PyStr ''2023-10-01T00:00:00Z'', irradiance = PyInt 1000\<rparr>]\<rparr>)"
    using parse_json_hour_pairs [of w body "[(PyStr ''2023-10-01T00:00:00Z'', PyInt 1000)]"]
      loads raw by simp
  have day: "parse_json w body ''day'' =
      Inr (Daily
        [\<lparr>DailyForecast.timestamp = PyStr ''2023-10-01T00:00:00Z'',
          total_irradiance = PyInt 1000\<rparr>])"
    using parse_json_day_pairs [of w body "[(PyStr ''2023-10-01T00:00:00Z'', PyInt 1000)]"]
      loads raw by simp
  show ?thesis
    by (simp add: hourly_valid_eq daily_valid_eq fetch_200 hour day
        hourly_entry_pair daily_entry_pair)
qed

theorem single_pair_roundtrip_witness:
  "json_loads (sample_world (Response 200 (Some sample_text))) sample_text = Some sample_raw
   \<and> valid_hourly 24 1 ''auto'' \<and> valid_daily 1 1 ''auto''
   \<and> urlopen (sample_world (Response 200 (Some sample_text)))
       (hourly_request test_client (FloatRepr ''50.0'') (FloatRepr ''14.0'') 24 1 ''auto'') =
       Response 200 (Some sample_text)
   \<and> urlopen (sample_world (Response 200 (Some sample_text)))
       (daily_request test_client (FloatRepr ''50.0'') (FloatRepr ''14.0'') 1 1 ''auto'') =
       Response 200 (Some sample_text)
   \<and> fst (get_hourly_irradiance (sample_world (Response 200 (Some sample_text))) test_client
        (FloatRepr ''50.0'') (FloatRepr ''14.0'') 24 1 ''auto'') =
        Inr (Hourly \<lparr>forecasts =
          [\<lparr>HourlyForecast.timestamp = PyStr ''2023-10-01T00:00:00Z'',
            irradiance = PyInt 1000\<rparr>]\<rparr>)
   \<and> fst (get_daily_irradiance (sample_world (Response 200 (Some sample_text))) test_client
        (FloatRepr ''50.0'') (FloatRepr ''14.0'') 1 1 ''auto'') =
        Inr (Daily
          [\<lparr>DailyForecast.timestamp = PyStr ''2023-10-01T00:00:00Z'',
            total_irradiance = PyInt 1000\<rparr>])"
proof -
  have l: "json_loads (sample_world (Response 200 (Some sample_text))) sample_text
      = Some sample_raw"
    by (simp add: sample_world_def sample_loads_def)
  have vh: "valid_hourly 24 1 ''auto''" by (simp add: valid_hourly_def)
  have vd: "valid_daily 1 1 ''auto''" by (simp add: valid_daily_def)
  have u: "urlopen (sample_world (Response 200 (Some sample_text))) r
      = Response 200 (Some sample_text)" for r
    by (simp add: sample_world_def)
  show ?thesis
    using l vh vd u
      single_pair_roundtrip [OF l, of 24 1 "''auto''" test_client
        "FloatRepr ''50.0''" "FloatRepr ''14.0''" 1]
    by simp
qed

text \<open>
  C2. When a call is answered with status 200 and the body decodes to an array of \<open>N\<close>
  pairs, the call succeeds with exactly \<open>N\<close> entries; the entry at each index is made from
  the pair at the same index, so the order of the server is kept; and the total irradiance
  of a daily entry is present (not \<open>None\<close>) exactly when the second element of the pair at
  that index is not null.
\<close>

theorem pairs_length_and_order:
  "json_loads w body = Some (PyList (map json_pair ps)) \<Longrightarrow>
   (valid_hourly h dst start \<and>
      urlopen w (hourly_request self lat lon h dst start) = Response 200 (Some body) \<longrightarrow>
      (\<exists>fs. fst (get_hourly_irradiance w self lat lon h dst start) =
              Inr (Hourly \<lparr>forecasts = fs\<rparr>)
         \<and> length fs = length ps
         \<and> (\<forall>i < length ps.
               HourlyForecast.timestamp (fs ! i) = fst (ps ! i)
             \<and> irradiance (fs ! i) = snd (ps ! i))))
   \<and> (valid_daily d dst start \<and>
      urlopen w (daily_request self lat lon d dst start) = Response 200 (Some body) \<longrightarrow>
      (\<exists>ds. fst (get_daily_irradiance w self lat lon d dst start) = Inr (Daily ds)
         \<and> length ds = length ps
         \<and> (\<forall>i < length ps.
               DailyForecast.timestamp (ds ! i) = fst (ps ! i)
             \<and> total_irradiance (ds ! i) = snd (ps ! i)
             \<and> (total_irradiance (ds ! i) \<noteq> PyNone \<longleftrightarrow> snd (ps ! i) \<noteq> PyNone))))"
  by (simp add: hourly_valid_eq daily_valid_eq fetch_200
      parse_json_hour_pairs parse_json_day_pairs)

theorem pairs_length_and_order_witness:
  "json_loads (mock_world (Response 200 (Some ''body'')) (Some (PyList (map json_pair two_days))))
      ''body'' = Some (PyList (map json_pair two_days))
   \<and> valid_hourly 48 0 ''today'' \<and> valid_daily 2 0 ''today''
   \<and> fst (get_hourly_irradiance
        (mock_world (Response 200 (Some ''body'')) (Some (PyList (map json_pair two_days))))
        test_client (FloatRepr ''50.0'') (FloatRepr ''14.0'') 48 0 ''today'') =
      Inr (Hourly \<lparr>forecasts =
        [\<lparr>HourlyForecast.timestamp = PyStr ''2023-10-01T00:00:00Z'', irradiance = PyInt 1000\<rparr>,
         \<lparr>HourlyForecast.timestamp = PyStr ''2023-10-02T00:00:00Z'', irradiance = PyNone\<rparr>]\<rparr>)
   \<and> (\<exists>ds. fst (get_daily_irradiance
        (mock_world (Response 200 (Some ''body'')) (Some (PyList (map json_pair two_days))))
        test_client (FloatRepr ''50.0'') (FloatRepr ''14.0'') 2 0 ''today'') = Inr (Daily ds)
      \<and> length ds = 2
      \<and> total_irradiance (ds ! 0) = PyInt 1000
      \<and> total_irradiance (ds ! 1) = PyNone)"
proof -
  let ?w = "mock_world (Response 200 (Some ''body'')) (Some (PyList (map json_pair two_days)))"
  have l: "json_loads ?w ''body'' = Some (PyList (map json_pair two_days))"
    by (simp add: mock_world_def)
  have vh: "valid_hourly 48 0 ''today''" by (simp add: valid_hourly_def)
  have vd: "valid_daily 2 0 ''today''" by (simp add: valid_daily_def)
  have u: "urlopen ?w r = Response 200 (Some ''body'')" for r
    by (simp add: mock_world_def)
  have len: "length two_days = 2" by (simp add: two_days_def)
  note t = pairs_length_and_order [OF l, of 48 0 "''today''" test_client
        "FloatRepr ''50.0''" "FloatRepr ''14.0''" 2]
  from t vh u obtain fs where
    fs: "fst (get_hourly_irradiance ?w test_client (FloatRepr ''50.0'') (FloatRepr ''14.0'')
           48 0 ''today'') = Inr (Hourly \<lparr>forecasts = fs\<rparr>)"
      "length fs = length two_days"
      "\<forall>i < length two_days. HourlyForecast.timestamp (fs ! i) = fst (two_days ! i)
             \<and> irradiance (fs ! i) = snd (two_days ! i)"
    by blast
  from fs(2) len obtain a b where ab: "fs = [a, b]"
    by (cases fs; cases "tl fs"; cases "tl (tl fs)") auto
  from fs(3) len have "HourlyForecast.timestamp (fs ! 0) = fst (two_days ! 0)"
      "irradiance (fs ! 0) = snd (two_days ! 0)"
      "HourlyForecast.timestamp (fs ! 1) = fst (two_days ! 1)"
      "irradiance (fs ! 1) = snd (two_days ! 1)"
    by simp_all
  then have "a = \<lparr>HourlyForecast.timestamp = PyStr ''2023-10-01T00:00:00Z'', irradiance = PyInt 1000\<rparr>"
    "b = \<lparr>HourlyForecast.timestamp = PyStr ''2023-10-02T00:00:00Z'', irradiance = PyNone\<rparr>"
    by (simp_all add: ab two_days_def)
  with fs(1) ab have hourly: "fst (get_hourly_irradiance ?w test_client (FloatRepr ''50.0'')
      (FloatRepr ''14.0'') 48 0 ''today'') =
      Inr (Hourly \<lparr>forecasts =
        [\<lparr>HourlyForecast.timestamp = PyStr ''2023-10-01T00:00:00Z'', irradiance = PyInt 1000\<rparr>,
         \<lparr>HourlyForecast.timestamp = PyStr ''2023-10-02T00:00:00Z'', irradiance = PyNone\<rparr>]\<rparr>)"
    by simp
  from t vd u obtain ds where
    ds: "fst (get_daily_irradiance ?w test_client (FloatRepr ''50.0'') (FloatRepr ''14.0'')
           2 0 ''today'') = Inr (Daily ds)"
      "length ds = length two_days"
      "\<forall>i < length two_days. DailyForecast.timestamp (ds ! i) = fst (two_days ! i)
             \<and> total_irradiance (ds ! i) = snd (two_days ! i)
             \<and> (total_irradiance (ds ! i) \<noteq> PyNone \<longleftrightarrow> snd (two_days ! i) \<noteq> PyNone)"
    by blast
  from ds(3) len have "total_irradiance (ds ! 0) = snd (two_days ! 0)"
      "total_irradiance (ds ! 1) = snd (two_days ! 1)"
    by simp_all
  then have "total_irradiance (ds ! 0) = PyInt 1000" "total_irradiance (ds ! 1) = PyNone"
    by (simp_all add: two_days_def)
  with ds(1,2) len have daily: "\<exists>ds. fst (get_daily_irradiance ?w test_client
      (FloatRepr ''50.0'') (FloatRepr ''14.0'') 2 0 ''today'') = Inr (Daily ds)
      \<and> length ds = 2
      \<and> total_irradiance (ds ! 0) = PyInt 1000
      \<and> total_irradiance (ds ! 1) = PyNone"
    by auto
  from l vh vd hourly daily show ?thesis by blast
qed

text \<open>
  C3. A daily call that is answered with status 200 and the body
  \<^verbatim>\<open>[["2023-10-02T00:00:00Z", null]]\<close> returns one entry whose total irradiance is
  absent (\<open>None\<close>), not the number zero.
\<close>

theorem daily_null_is_absent:
  "json_loads w body = Some null_raw \<Longrightarrow>
   valid_daily d dst start \<Longrightarrow>
   urlopen w (daily_request self lat lon d dst start) = Response 200 (Some body) \<Longrightarrow>
   \<exists>r. fst (get_daily_irradiance w self lat lon d dst start) = Inr (Daily [r])
      \<and> DailyForecast.timestamp r = PyStr ''2023-10-02T00:00:00Z''
      \<and> total_irradiance r = PyNone
      \<and> total_irradiance r \<noteq> PyInt 0"
proof -
  assume loads: "json_loads w body = Some null_raw"
    and valid: "valid_daily d dst start"
    and resp: "urlopen w (daily_request self lat lon d dst start) = Response 200 (Some body)"
  have "null_raw = PyList (map json_pair [(PyStr ''2023-10-02T00:00:00Z'', PyNone)])"
    by (simp add: null_raw_def json_pair_def)
  with loads have "parse_json w body ''day'' =
      Inr (Daily [\<lparr>DailyForecast.timestamp = PyStr ''2023-10-02T00:00:00Z'',
                   total_irradiance = PyNone\<rparr>])"
    using parse_json_day_pairs [of w body "[(PyStr ''2023-10-02T00:00:00Z'', PyNone)]"]
    by simp
  with valid resp show ?thesis
    by (simp add: daily_valid_eq fetch_200)
qed

theorem daily_null_is_absent_witness:
  "json_loads (sample_world (Response 200 (Some null_text))) null_text = Some null_raw
   \<and> valid_daily 1 1 ''auto''
   \<and> urlopen (sample_world (Response 200 (Some null_text)))
       (daily_request test_client (FloatRepr ''50.0'') (FloatRepr ''14.0'') 1 1 ''auto'') =
       Response 200 (Some null_text)
   \<and> (\<exists>r. fst (get_daily_irradiance (sample_world (Response 200 (Some null_text))) test_client
              (FloatRepr ''50.0'') (FloatRepr ''14.0'') 1 1 ''auto'') = Inr (Daily [r])
      \<and> DailyForecast.timestamp r = PyStr ''2023-10-02T00:00:00Z''
      \<and> total_irradiance r = PyNone
      \<and> total_irradiance r \<noteq> PyInt 0)"
proof -
  let ?w = "sample_world (Response 200 (Some null_text))"
  have l: "json_loads ?w null_text = Some null_raw"
    by (simp add: sample_world_def sample_loads_def null_text_def sample_text_def)
  have v: "valid_daily 1 1 ''auto''" by (simp add: valid_daily_def)
  have u: "urlopen ?w (daily_request test_client (FloatRepr ''50.0'') (FloatRepr ''14.0'')
      1 1 ''auto'') = Response 200 (Some null_text)"
    by (simp add: sample_world_def)
  from l v u daily_null_is_absent [OF l v u] show ?thesis by blast
qed

section \<open>Rejected parameters\<close>

text \<open>
  C4. For every length outside 24, 48, 72 the hourly call raises \<open>ValueError\<close> (the
  invalid-parameter failure), and for every length outside 1, 2, 3 the daily call does;
  in both cases nothing is handed to \<^verbatim>\<open>urlopen\<close>.
\<close>

theorem invalid_length_raises:
  "(h \<notin> {24, 48, 72} \<longrightarrow>
      get_hourly_irradiance w self lat lon h dst start =
        (Inl (ValueError ''Invalid length. Should be 24, 48 or 72.''), []))
   \<and> (d \<notin> {1, 2, 3} \<longrightarrow>
      get_daily_irradiance w self lat lon d dst start =
        (Inl (ValueError ''Invalid length. Should be 1, 2 or 3.''), []))"
  by (simp add: get_hourly_irradiance_def get_daily_irradiance_def)

theorem invalid_length_raises_witness:
  "(12::int) \<notin> {24, 48, 72} \<and> (5::int) \<notin> {1, 2, 3}
   \<and> get_hourly_irradiance (mock_world (URLError ''unused'') None) test_client
        (FloatRepr ''50.0'') (FloatRepr ''14.0'') 12 1 ''auto'' =
        (Inl (ValueError ''Invalid length. Should be 24, 48 or 72.''), [])
   \<and> get_daily_irradiance (mock_world (URLError ''unused'') None) test_client
        (FloatRepr ''50.0'') (FloatRepr ''14.0'') 5 1 ''auto'' =
        (Inl (ValueError ''Invalid length. Should be 1, 2 or 3.''), [])"
  using invalid_length_raises [of 12 "mock_world (URLError ''unused'') None" test_client
      "FloatRepr ''50.0''" "FloatRepr ''14.0''" 1 "''auto''" 5]
  by simp

text \<open>
  C5. For every dst outside 0, 1 both calls raise \<open>ValueError\<close> and hand nothing to
  \<^verbatim>\<open>urlopen\<close>. The message is the one about dst unless the length is rejected first.
\<close>

theorem invalid_dst_raises:
  "dst \<notin> {0, 1} \<Longrightarrow>
     get_hourly_irradiance w self lat lon h dst start =
       (Inl (ValueError (if h \<in> {24, 48, 72} then ''Invalid dst. Should be 0 or 1.''
                         else ''Invalid length. Should be 24, 48 or 72.'')), [])
   \<and> get_daily_irradiance w self lat lon d dst start =
       (Inl (ValueError (if d \<in> {1, 2, 3} then ''Invalid dst. Should be 0 or 1.''
                         else ''Invalid length. Should be 1, 2 or 3.'')), [])"
  by (simp add: get_hourly_irradiance_def get_daily_irradiance_def)

theorem invalid_dst_raises_witness:
  "(2::int) \<notin> {0, 1}
   \<and> get_hourly_irradiance (mock_world (URLError ''unused'') None) test_client
        (FloatRepr ''50.0'') (FloatRepr ''14.0'') 24 2 ''auto'' =
        (Inl (ValueError ''Invalid dst. Should be 0 or 1.''), [])
   \<and> get_daily_irradiance (mock_world (URLError ''unused'') None) test_client
        (FloatRepr ''50.0'') (FloatRepr ''14.0'') 1 2 ''auto'' =
        (Inl (ValueError ''Invalid dst. Should be 0 or 1.''), [])"
proof -
  have h: "(2::int) \<notin> {0, 1}" by simp
  show ?thesis
    using h invalid_dst_raises [OF h, of "mock_world (URLError ''unused'') None" test_client
      "FloatRepr ''50.0''" "FloatRepr ''14.0''" 24 "''auto''" 1]
    by simp
qed

text \<open>
  C6. For every start outside \<^verbatim>\<open>today\<close>, \<^verbatim>\<open>tomorrow\<close>, \<^verbatim>\<open>auto\<close> both calls raise
  \<open>ValueError\<close> and hand nothing to \<^verbatim>\<open>urlopen\<close>.
\<close>

theorem invalid_start_raises:
  "start \<notin> {''today'', ''tomorrow'', ''auto''} \<Longrightarrow>
     (\<exists>m. get_hourly_irradiance w self lat lon h dst start = (Inl (ValueError m), []))
   \<and> (\<exists>m. get_daily_irradiance w self lat lon d dst start = (Inl (ValueError m), []))
   \<and> (h \<in> {24, 48, 72} \<and> dst \<in> {0, 1} \<longrightarrow>
        get_hourly_irradiance w self lat lon h dst start =
          (Inl (ValueError invalid_start_msg), []))
   \<and> (d \<in> {1, 2, 3} \<and> dst \<in> {0, 1} \<longrightarrow>
        get_daily_irradiance w self lat lon d dst start =
          (Inl (ValueError invalid_start_msg), []))"
  by (simp add: get_hourly_irradiance_def get_daily_irradiance_def)

theorem invalid_start_raises_witness:
  "''invalid'' \<notin> {''today'', ''tomorrow'', ''auto''}
   \<and> (24::int) \<in> {24, 48, 72} \<and> (1::int) \<in> {1, 2, 3} \<and> (1::int) \<in> {0, 1}
   \<and> get_hourly_irradiance (mock_world (URLError ''unused'') None) test_client
        (FloatRepr ''50.0'') (FloatRepr ''14.0'') 24 1 ''invalid'' =
        (Inl (ValueError invalid_start_msg), [])
   \<and> get_daily_irradiance (mock_world (URLError ''unused'') None) test_client
        (FloatRepr ''50.0'') (FloatRepr ''14.0'') 1 1 ''invalid'' =
        (Inl (ValueError invalid_start_msg), [])"
proof -
  have h: "''invalid'' \<notin> {''today'', ''tomorrow'', ''auto''}" by simp
  show ?thesis
    using h
      invalid_start_raises [OF h, of "mock_world (URLError ''unused'') None" test_client
        "FloatRepr ''50.0''" "FloatRepr ''14.0''" 24 1 1]
    by simp
qed

section \<open>The request\<close>

text \<open>
  C9. For every accepted parameter combination exactly one request is made, without a
  body, to the fixed base URL followed by \<^verbatim>\<open>?\<close> and a query string. Read back, the
  query string holds exactly nine fields, in this order: \<^verbatim>\<open>key\<close> (the stored API key),
  \<^verbatim>\<open>lat\<close>, \<^verbatim>\<open>lon\<close>, \<^verbatim>\<open>forecast=pv\<close>, \<^verbatim>\<open>format=json\<close>, \<^verbatim>\<open>type\<close> (\<^verbatim>\<open>hour\<close> for the
  hourly call, \<^verbatim>\<open>day\<close> for the daily call), \<^verbatim>\<open>number\<close> (the length argument),
  \<^verbatim>\<open>dst\<close> and \<^verbatim>\<open>start\<close>; the key and the coordinates are percent-encoded, so no
  character of theirs can add a field.
\<close>

theorem request_query_parameters:
  "(valid_hourly h dst start \<longrightarrow>
      (\<exists>q. snd (get_hourly_irradiance w self lat lon h dst start) =
              [\<lparr>req_url = ''http://www.pvforecast.cz/api/'' @ ''?'' @ q, req_data = None\<rparr>]
         \<and> q = urlencode (hourly_params self lat lon h dst start)
         \<and> parse_query q =
             [[''key'', quote_plus (api_key self)],
              [''lat'', quote_plus (str_value (QFloat lat))],
              [''lon'', quote_plus (str_value (QFloat lon))],
              [''forecast'', ''pv''], [''format'', ''json''], [''type'', ''hour''],
              [''number'', str_int h], [''dst'', str_int dst], [''start'', start]]))
   \<and> (valid_daily d dst start \<longrightarrow>
      (\<exists>q. snd (get_daily_irradiance w self lat lon d dst start) =
              [\<lparr>req_url = ''http://www.pvforecast.cz/api/'' @ ''?'' @ q, req_data = None\<rparr>]
         \<and> q = urlencode (daily_params self lat lon d dst start)
         \<and> parse_query q =
             [[''key'', quote_plus (api_key self)],
              [''lat'', quote_plus (str_value (QFloat lat))],
              [''lon'', quote_plus (str_value (QFloat lon))],
              [''forecast'', ''pv''], [''format'', ''json''], [''type'', ''day''],
              [''number'', str_int d], [''dst'', str_int dst], [''start'', start]]))"
proof -
  have hourly: "snd (get_hourly_irradiance w self lat lon h dst start) =
      [\<lparr>req_url = ''http://www.pvforecast.cz/api/'' @ ''?''
          @ urlencode (hourly_params self lat lon h dst start), req_data = None\<rparr>]"
    if "valid_hourly h dst start"
    using that by (simp add: hourly_valid_eq hourly_request_def BASE_URL_def)
  have daily: "snd (get_daily_irradiance w self lat lon d dst start) =
      [\<lparr>req_url = ''http://www.pvforecast.cz/api/'' @ ''?''
          @ urlencode (daily_params self lat lon d dst start), req_data = None\<rparr>]"
    if "valid_daily d dst start"
    using that by (simp add: daily_valid_eq daily_request_def BASE_URL_def)
  show ?thesis
    using hourly daily hourly_fields [of h dst start self lat lon]
      daily_fields [of d dst start self lat lon]
    by blast
qed

theorem request_query_parameters_witness:
  "valid_hourly 24 1 ''auto'' \<and> valid_daily 1 1 ''auto''
   \<and> snd (get_hourly_irradiance (sample_world (Response 200 (Some sample_text)))
        \<lparr>api_key = ''k&dst=0''\<rparr> (FloatRepr ''50.0'') (FloatRepr ''14.0'') 24 1 ''auto'') =
      [\<lparr>req_url = ''http://www.pvforecast.cz/api/?key=k%26dst%3D0&lat=50.0&lon=14.0&forecast=pv&format=json&type=hour&number=24&dst=1&start=auto'',
        req_data = None\<rparr>]
   \<and> parse_query
        ''key=k%26dst%3D0&lat=50.0&lon=14.0&forecast=pv&format=json&type=hour&number=24&dst=1&start=auto'' =
      [[''key'', ''k%26dst%3D0''], [''lat'', ''50.0''], [''lon'', ''14.0''],
       [''forecast'', ''pv''], [''format'', ''json''], [''type'', ''hour''],
       [''number'', ''24''], [''dst'', ''1''], [''start'', ''auto'']]
   \<and> snd (get_daily_irradiance (sample_world (Response 200 (Some sample_text)))
        \<lparr>api_key = ''k&dst=0''\<rparr> (FloatRepr ''50.0'') (FloatRepr ''14.0'') 1 1 ''auto'') =
      [\<lparr>req_url = ''http://www.pvforecast.cz/api/?key=k%26dst%3D0&lat=50.0&lon=14.0&forecast=pv&format=json&type=day&number=1&dst=1&start=auto'',
        req_data = None\<rparr>]"
proof -
  have vh: "valid_hourly 24 1 ''auto''" by (simp add: valid_hourly_def)
  have vd: "valid_daily 1 1 ''auto''" by (simp add: valid_daily_def)
  have kq: "quote_plus ''k&dst=0'' = ''k%26dst%3D0''"
    by (simp add: quote_plus_def quote_char_def always_safe_def utf8_encode_def hex_byte_def)
  have fq: "quote_plus ''50.0'' = ''50.0''" "quote_plus ''14.0'' = ''14.0''"
    by (simp_all add: quote_plus_def quote_char_def always_safe_def)
  have qh: "urlencode (hourly_params \<lparr>api_key = ''k&dst=0''\<rparr> (FloatRepr ''50.0'')
        (FloatRepr ''14.0'') 24 1 ''auto'') =
      ''key=k%26dst%3D0&lat=50.0&lon=14.0&forecast=pv&format=json&type=hour&number=24&dst=1&start=auto''"
    by (simp add: urlencode_def hourly_params_def query_field_def quote_plus_names
        quote_plus_numbers str_numbers kq fq del: str_nat.simps)
  have qd: "urlencode (daily_params \<lparr>api_key = ''k&dst=0''\<rparr> (FloatRepr ''50.0'')
        (FloatRepr ''14.0'') 1 1 ''auto'') =
      ''key=k%26dst%3D0&lat=50.0&lon=14.0&forecast=pv&format=json&type=day&number=1&dst=1&start=auto''"
    by (simp add: urlencode_def daily_params_def query_field_def quote_plus_names
        quote_plus_numbers str_numbers kq fq del: str_nat.simps)
  show ?thesis
    using vh vd
      request_query_parameters [of 24 1 "''auto''" "sample_world (Response 200 (Some sample_text))"
        "\<lparr>api_key = ''k&dst=0''\<rparr>" "FloatRepr ''50.0''" "FloatRepr ''14.0''" 1]
    by (simp add: qh qd kq fq str_numbers del: str_nat.simps split_on.simps)
qed


section \<open>Failures\<close>







text \<open>
  C10. When \<^verbatim>\<open>urlopen\<close> returns a response, both calls parse the body only for the
  status 200: for every other status, 201 and 204 among them, the call raises
  \<open>Exception\<close> with the status in its message and returns no forecast; for 200 the
  outcome of the call is the outcome of parsing the decoded body.
\<close>

theorem only_status_200_is_parsed:
  "(valid_hourly h dst start \<and>
      urlopen w (hourly_request self lat lon h dst start) = Response status body \<and>
      status \<noteq> 200 \<longrightarrow>
      fst (get_hourly_irradiance w self lat lon h dst start) =
        Inl (Exception (''Failed to fetch data: HTTP '' @ str_int status)))
   \<and> (valid_daily d dst start \<and>
      urlopen w (daily_request self lat lon d dst start) = Response status body \<and>
      status \<noteq> 200 \<longrightarrow>
      fst (get_daily_irradiance w self lat lon d dst start) =
        Inl (Exception (''Failed to fetch data: HTTP '' @ str_int status)))
   \<and> (valid_hourly h dst start \<and>
      urlopen w' (hourly_request self lat lon h dst start) = Response 200 (Some body') \<longrightarrow>
      fst (get_hourly_irradiance w' self lat lon h dst start) = parse_json w' body' ''hour'')
   \<and> (valid_daily d dst start \<and>
      urlopen w' (daily_request self lat lon d dst start) = Response 200 (Some body') \<longrightarrow>
      fst (get_daily_irradiance w' self lat lon d dst start) = parse_json w' body' ''day'')"
  by (simp add: hourly_valid_eq daily_valid_eq fetch_response)

theorem only_status_200_is_parsed_witness:
  "valid_hourly 24 1 ''auto'' \<and> valid_daily 1 1 ''auto'' \<and> (204::int) \<noteq> 200
   \<and> fst (get_hourly_irradiance (sample_world (Response 204 (Some sample_text))) test_client
        (FloatRepr ''50.0'') (FloatRepr ''14.0'') 24 1 ''auto'') =
      Inl (Exception ''Failed to fetch data: HTTP 204'')
   \<and> fst (get_daily_irradiance (sample_world (Response 204 (Some sample_text))) test_client
        (FloatRepr ''50.0'') (FloatRepr ''14.0'') 1 1 ''auto'') =
      Inl (Exception ''Failed to fetch data: HTTP 204'')
   \<and> fst (get_hourly_irradiance (sample_world (Response 200 (Some sample_text))) test_client
        (FloatRepr ''50.0'') (FloatRepr ''14.0'') 24 1 ''auto'') =
      parse_json (sample_world (Response 200 (Some sample_text))) sample_text ''hour''
   \<and> fst (get_daily_irradiance (sample_world (Response 200 (Some sample_text))) test_client
        (FloatRepr ''50.0'') (FloatRepr ''14.0'') 1 1 ''auto'') =
      parse_json (sample_world (Response 200 (Some sample_text))) sample_text ''day''"
proof -
  let ?w = "sample_world (Response 204 (Some sample_text))"
  let ?w' = "sample_world (Response 200 (Some sample_text))"
  have vh: "valid_hourly 24 1 ''auto''" by (simp add: valid_hourly_def)
  have vd: "valid_daily 1 1 ''auto''" by (simp add: valid_daily_def)
  have u: "urlopen ?w r = Response 204 (Some sample_text)" for r
    by (simp add: sample_world_def)
  have u': "urlopen ?w' r = Response 200 (Some sample_text)" for r
    by (simp add: sample_world_def)
  have s: "str_int 204 = ''204''" by (simp add: str_int_def)
  show ?thesis
    using vh vd u u' s
      only_status_200_is_parsed [of 24 1 "''auto''" ?w test_client
        "FloatRepr ''50.0''" "FloatRepr ''14.0''" 204 "Some sample_text" 1 ?w' sample_text]
    by simp
qed


end
